theory Spec2Isabelle
  imports Complex_Main "HOL-Library.Sublist"
begin

section \<open>Strings of the host language\<close>

text \<open>
  The catalog browser of \<^verbatim>\<open>src/app.js\<close> works on JavaScript strings. They are modelled
  as \<^typ>\<open>string\<close>, one \<^typ>\<open>char\<close> per code unit, which is exact for ASCII text: on that
  range \<^verbatim>\<open>length\<close> counts the same units, \<^verbatim>\<open>toLowerCase\<close> changes the letters
  \<^verbatim>\<open>A\<close> to \<^verbatim>\<open>Z\<close> only, and the white space of \<^verbatim>\<open>trim\<close> and of the regular expression
  class \<^verbatim>\<open>\s\<close> is tab, line feed, vertical tab, form feed, carriage return and space.
\<close>

definition toLowerChar :: "char \<Rightarrow> char" where
  "toLowerChar c =
     (case map_of (zip ''ABCDEFGHIJKLMNOPQRSTUVWXYZ'' ''abcdefghijklmnopqrstuvwxyz'') c of
        None \<Rightarrow> c
      | Some l \<Rightarrow> l)"

definition toLowerCase :: "string \<Rightarrow> string" where
  "toLowerCase s = map toLowerChar s"

definition isWhiteSpace :: "char \<Rightarrow> bool" where
  "isWhiteSpace c \<longleftrightarrow>
     c = CHR 0x09 \<or> c = CHR 0x0A \<or> c = CHR 0x0B \<or> c = CHR 0x0C \<or> c = CHR 0x0D \<or> c = CHR '' ''"

text \<open>\<^verbatim>\<open>String.prototype.trim\<close>: white space is removed at both ends.\<close>

definition trim :: "string \<Rightarrow> string" where
  "trim s = rev (dropWhile isWhiteSpace (rev (dropWhile isWhiteSpace s)))"

text \<open>\<^verbatim>\<open>s.startsWith(sub)\<close> at position 0, and \<^verbatim>\<open>s.includes(sub)\<close>, which tries every
  position from the left (\<open>includes\<close> alone is a reserved word of the theory language).\<close>

fun startsWith :: "string \<Rightarrow> string \<Rightarrow> bool" where
  "startsWith s [] = True"
| "startsWith [] (c # cs) = False"
| "startsWith (x # xs) (c # cs) = (x = c \<and> startsWith xs cs)"

fun includes_str :: "string \<Rightarrow> string \<Rightarrow> bool" where
  "includes_str [] sub = startsWith [] sub"
| "includes_str (x # xs) sub = (startsWith (x # xs) sub \<or> includes_str xs sub)"

text \<open>\<^verbatim>\<open>Array.prototype.join\<close>: the separator goes between any two elements, and an element
  that is \<^verbatim>\<open>undefined\<close> (here \<^const>\<open>None\<close>) is joined as the empty string.\<close>

fun join :: "string option list \<Rightarrow> string \<Rightarrow> string" where
  "join [] sep = []"
| "join [x] sep = (case x of None \<Rightarrow> [] | Some s \<Rightarrow> s)"
| "join (x # y # ys) sep = (case x of None \<Rightarrow> [] | Some s \<Rightarrow> s) @ sep @ join (y # ys) sep"

section \<open>Listings\<close>

text \<open>
  A listing is one object of the array in \<^verbatim>\<open>tours-data.json\<close>. A property that the object
  does not have reads as \<^verbatim>\<open>undefined\<close>, which is \<^const>\<open>None\<close> here. Numbers are the exact
  values of the finite doubles that JSON can denote, so the comparisons of the code are the
  comparisons of \<^typ>\<open>rat\<close>. The fields \<^verbatim>\<open>id\<close> and \<^verbatim>\<open>image\<close> carry a suffix because their
  names are taken in HOL.
\<close>

record tour =
  id_f :: "string option"
  name :: "string option"
  company :: "string option"
  description :: "string option"
  tags :: "string list option"
  price :: "rat option"
  durationText :: "string option"
  freeCancellation :: "bool option"
  image_f :: "string option"
  bookingLink :: "string option"
  qualityScore :: "rat option"

datatype error = TypeError

section \<open>Matchers\<close>

text \<open>
  The table of \<^verbatim>\<open>matchesActivity\<close>. It is an object literal, so a lookup
  \<^verbatim>\<open>activityMap[activity]\<close> that finds no own property continues in
  \<^verbatim>\<open>Object.prototype\<close>, whose property names are listed in \<open>objectPrototype\<close>. Each of those
  properties is a function or an object: it is truthy, so it is chosen over the fallback
  \<^verbatim>\<open>[activity]\<close>, and it has no method \<^verbatim>\<open>some\<close>, so the call \<^verbatim>\<open>keywords.some(...)\<close> raises a
  \<^verbatim>\<open>TypeError\<close>.
\<close>

definition activityMap :: "(string \<times> string list) list" where
  "activityMap =
    [(''airboat'', [''airboat'']),
     (''kayak'', [''kayak'', ''paddle'', ''canoe'']),
     (''wildlife'', [''wildlife'', ''gator'', ''alligator'', ''animal'', ''bird'']),
     (''fishing'', [''fishing'', ''fish'']),
     (''boat-tour'', [''boat tour'', ''boat ride'']),
     (''eco-tour'', [''eco'', ''nature'', ''mangrove'']),
     (''night'', [''night'', ''sunset'', ''evening'']),
     (''private'', [''private'', ''charter''])]"

definition objectPrototype :: "string list" where
  "objectPrototype =
    [''constructor'', ''__defineGetter__'', ''__defineSetter__'', ''hasOwnProperty'',
     ''__lookupGetter__'', ''__lookupSetter__'', ''isPrototypeOf'', ''propertyIsEnumerable'',
     ''toString'', ''valueOf'', ''__proto__'', ''toLocaleString'']"

definition tagsText :: "tour \<Rightarrow> string" where
  "tagsText t =
     join (map (\<lambda>s. Some (toLowerCase s)) (case tags t of None \<Rightarrow> [] | Some ts \<Rightarrow> ts)) '' ''"

definition nameText :: "tour \<Rightarrow> string" where
  "nameText t = toLowerCase (case name t of None \<Rightarrow> [] | Some n \<Rightarrow> n)"

definition matchesActivity :: "tour \<Rightarrow> string \<Rightarrow> error + bool" where
  "matchesActivity t activity =
     (let tgs = tagsText t; nm = nameText t
      in case map_of activityMap activity of
           Some keywords \<Rightarrow> Inr (list_ex (\<lambda>kw. includes_str tgs kw \<or> includes_str nm kw) keywords)
         | None \<Rightarrow>
             if List.member objectPrototype activity then Inl TypeError
             else Inr (list_ex (\<lambda>kw. includes_str tgs kw \<or> includes_str nm kw) [activity]))"

text \<open>\<^verbatim>\<open>!price\<close> holds for a missing price and for the number zero.\<close>

definition matchesPrice :: "tour \<Rightarrow> string \<Rightarrow> bool" where
  "matchesPrice t bucket =
     (case price t of
        None \<Rightarrow> bucket = []
      | Some p \<Rightarrow>
          if p = 0 then bucket = []
          else if bucket = ''0-50'' then p \<le> 50
          else if bucket = ''50-100'' then p > 50 \<and> p \<le> 100
          else if bucket = ''100-200'' then p > 100 \<and> p \<le> 200
          else if bucket = ''200+'' then p > 200
          else True)"

definition searchable :: "tour \<Rightarrow> string" where
  "searchable t =
     toLowerCase
       (join ([name t, company t, description t]
              @ map Some (case tags t of None \<Rightarrow> [] | Some ts \<Rightarrow> ts)) '' '')"

definition matchesSearch :: "tour \<Rightarrow> string \<Rightarrow> bool" where
  "matchesSearch t search = includes_str (searchable t) search"

section \<open>Utilities of the renderer\<close>

text \<open>\<^verbatim>\<open>truncate(str, length)\<close>, named \<open>truncate_str\<close> because records have a \<open>truncate\<close> of
  their own: \<^verbatim>\<open>substring(0, length)\<close> is \<^const>\<open>take\<close>.\<close>

definition truncate_str :: "string \<Rightarrow> nat \<Rightarrow> string" where
  "truncate_str str len =
     (if str = [] then []
      else if length str \<le> len then str
      else trim (take len str) @ ''...'')"

text \<open>
  \<^verbatim>\<open>duration.replace(/Duration\s*/gi, '')\<close>: the scan goes from left to right; where the
  text reads \<^verbatim>\<open>duration\<close> in any mix of cases, those eight characters and all white space
  after them are dropped and the scan goes on behind them; any other character is kept.
\<close>

function replaceDuration :: "string \<Rightarrow> string" where
  "replaceDuration [] = []"
| "replaceDuration (c # cs) =
     (if startsWith (toLowerCase (c # cs)) ''duration''
      then replaceDuration (dropWhile isWhiteSpace (drop 8 (c # cs)))
      else c # replaceDuration cs)"
  by pat_completeness auto
termination
proof (relation "measure length")
  fix c :: char and cs :: string
  have "length (dropWhile isWhiteSpace (drop 8 (c # cs))) \<le> length (drop 8 (c # cs))"
    by (rule length_dropWhile_le)
  then show "(dropWhile isWhiteSpace (drop 8 (c # cs)), c # cs) \<in> measure length"
    by simp
qed simp_all

text \<open>\<^verbatim>\<open>.replace(/\n/g, ' ')\<close>: every line feed becomes one space.\<close>

definition replaceNewlines :: "string \<Rightarrow> string" where
  "replaceNewlines s = map (\<lambda>c. if c = CHR 0x0A then CHR '' '' else c) s"

definition cleanDuration :: "string \<Rightarrow> string" where
  "cleanDuration duration = trim (replaceNewlines (replaceDuration duration))"

text \<open>\<^verbatim>\<open>escapeJs\<close>: a backslash is put before every single quote, then before every double
  quote; \<^verbatim>\<open>str || ''\<close> reads a missing string as the empty one.\<close>

definition replaceChar :: "char \<Rightarrow> string \<Rightarrow> string \<Rightarrow> string" where
  "replaceChar c r s = concat (map (\<lambda>x. if x = c then r else [x]) s)"

definition escapeJs :: "string option \<Rightarrow> string" where
  "escapeJs str =
     replaceChar (CHR 0x22) [CHR 0x5C, CHR 0x22]
       (replaceChar (CHR 0x27) [CHR 0x5C, CHR 0x27] (case str of None \<Rightarrow> [] | Some s \<Rightarrow> s))"

text \<open>The decimal numeral of a natural number, as the host prints an array length.\<close>

function decimal :: "nat \<Rightarrow> string" where
  "decimal n =
     (if n < 10 then [''0123456789'' ! n]
      else decimal (n div 10) @ [''0123456789'' ! (n mod 10)])"
  by pat_completeness auto
termination
  by (relation "measure id") auto

text \<open>The equation of \<open>decimal\<close> calls itself under a test, so it is unfolded on demand
  only.\<close>

declare decimal.simps [simp del]

section \<open>Cards\<close>

text \<open>
  A template literal prints a missing property as \<^verbatim>\<open>undefined\<close>. How the host prints a
  number (\<^verbatim>\<open>Number::toString\<close>, the shortest digits that read back as the same double)
  is not part of the program: it is the parameter \<open>ns\<close> of the renderer, and nothing is
  assumed about it. The two pictographs of the template are written as the three bytes
  each that the file holds for them.
\<close>

definition interpolate :: "string option \<Rightarrow> string" where
  "interpolate f = (case f of None \<Rightarrow> ''undefined'' | Some s \<Rightarrow> s)"

definition priceLabel :: "(rat \<Rightarrow> string) \<Rightarrow> tour \<Rightarrow> string" where
  "priceLabel ns t =
     (case price t of
        None \<Rightarrow> ''Check Price''
      | Some p \<Rightarrow> if p = 0 then ''Check Price'' else ''$'' @ ns p)"

definition firstTag :: "tour \<Rightarrow> string" where
  "firstTag t =
     (case tags t of
        None \<Rightarrow> ''Tour''
      | Some [] \<Rightarrow> ''Tour''
      | Some (x # xs) \<Rightarrow> if x = [] then ''Tour'' else x)"

definition durationOf :: "tour \<Rightarrow> string" where
  "durationOf t = (case durationText t of None \<Rightarrow> [] | Some d \<Rightarrow> d)"

definition descriptionOf :: "tour \<Rightarrow> string" where
  "descriptionOf t =
     (case description t of
        None \<Rightarrow> ''Experience the Everglades with this local tour operator.''
      | Some d \<Rightarrow>
          if d = [] then ''Experience the Everglades with this local tour operator.'' else d)"

definition trackedPrice :: "(rat \<Rightarrow> string) \<Rightarrow> tour \<Rightarrow> string" where
  "trackedPrice ns t = ns (case price t of None \<Rightarrow> 0 | Some p \<Rightarrow> p)"

definition createTourCard :: "(rat \<Rightarrow> string) \<Rightarrow> tour \<Rightarrow> string" where
  \<open>createTourCard ns t =
     [CHR 0x0A] @ ''    <article class="tour-card">'' @
     [CHR 0x0A] @ ''      <div class="tour-image">'' @
     [CHR 0x0A] @ ''        <img src="'' @ interpolate (image_f t) @ ''" alt="''
                @ interpolate (name t) @ ''" loading="lazy">'' @
     [CHR 0x0A] @ ''        <span class="tour-price">'' @ priceLabel ns t @ ''</span>'' @
     [CHR 0x0A] @ ''        <span class="tour-tag">'' @ firstTag t @ ''</span>'' @
     [CHR 0x0A] @ ''      </div>'' @
     [CHR 0x0A] @ ''      <div class="tour-content">'' @
     [CHR 0x0A] @ ''        <h3 class="tour-name">'' @ interpolate (name t) @ ''</h3>'' @
     [CHR 0x0A] @ ''        <p class="tour-company">'' @ interpolate (company t) @ ''</p>'' @
     [CHR 0x0A] @ ''        <p class="tour-description">'' @ truncate_str (descriptionOf t) 100
                @ ''</p>'' @
     [CHR 0x0A] @ ''        <div class="tour-meta">'' @
     [CHR 0x0A] @ ''          '' @
       (if durationOf t \<noteq> []
        then ''<span>'' @ [CHR 0xE2, CHR 0x8F, CHR 0xB1] @ '' '' @ cleanDuration (durationOf t)
             @ ''</span>''
        else []) @
     [CHR 0x0A] @ ''          '' @
       (if freeCancellation t = Some True
        then ''<span>'' @ [CHR 0xE2, CHR 0x9C, CHR 0x93] @ '' Free cancellation</span>''
        else []) @
     [CHR 0x0A] @ ''        </div>'' @
     [CHR 0x0A] @ ''        <a href="'' @ interpolate (bookingLink t) @ ''" '' @
     [CHR 0x0A] @ ''           target="_blank" '' @
     [CHR 0x0A] @ ''           rel="noopener" '' @
     [CHR 0x0A] @ ''           class="tour-cta"'' @
     [CHR 0x0A] @ ''           onclick="trackBookingClick('' @ [CHR 0x27]
                @ escapeJs (name t) @ [CHR 0x27] @ '', '' @ [CHR 0x27] @ interpolate (id_f t)
                @ [CHR 0x27] @ '', '' @ trackedPrice ns t @ '')">'' @
     [CHR 0x0A] @ ''          Check Availability'' @
     [CHR 0x0A] @ ''        </a>'' @
     [CHR 0x0A] @ ''      </div>'' @
     [CHR 0x0A] @ ''    </article>'' @
     [CHR 0x0A] @ ''  ''\<close>

section \<open>Application state\<close>

text \<open>
  The two module variables hold references to arrays, and \<^verbatim>\<open>sort\<close> changes an array in
  place, so the arrays live in a store: \<open>heap\<close> is the list of all arrays made so far, and
  a reference is a position in it. A new array is put at the end. Listings are never
  written to, so an array holds their values. The values of the three controls and the
  text of the two output elements are the part of the document that the program reads and
  writes.
\<close>

record state =
  heap :: "tour list list"
  allTours :: nat
  filteredTours :: nat
  activityFilter :: string
  priceFilter :: string
  searchInput :: string
  tourCount :: string
  toursContainer :: string

definition wellFormed :: "state \<Rightarrow> bool" where
  "wellFormed st \<longleftrightarrow> allTours st < length (heap st) \<and> filteredTours st < length (heap st)"

text \<open>
  \<^verbatim>\<open>Array.prototype.sort\<close> with a comparator is stable; it is an insertion sort here. The
  comparator of \<^verbatim>\<open>renderTours\<close> is \<open>compareScore\<close>, with a missing (or zero) score read as 0.
\<close>

definition score :: "tour \<Rightarrow> rat" where
  "score t = (case qualityScore t of None \<Rightarrow> 0 | Some q \<Rightarrow> q)"

definition compareScore :: "tour \<Rightarrow> tour \<Rightarrow> rat" where
  "compareScore a b = score b - score a"

fun insertBy :: "('a \<Rightarrow> 'a \<Rightarrow> rat) \<Rightarrow> 'a \<Rightarrow> 'a list \<Rightarrow> 'a list" where
  "insertBy cmp x [] = [x]"
| "insertBy cmp x (y # ys) = (if cmp x y \<le> 0 then x # y # ys else y # insertBy cmp x ys)"

definition sortBy :: "('a \<Rightarrow> 'a \<Rightarrow> rat) \<Rightarrow> 'a list \<Rightarrow> 'a list" where
  "sortBy cmp xs = foldr (insertBy cmp) xs []"

definition noResults :: string where
  \<open>noResults =
     [CHR 0x0A] @ ''      <div class="no-results">'' @
     [CHR 0x0A] @ ''        <h3>No tours found</h3>'' @
     [CHR 0x0A] @ ''        <p>Try adjusting your filters or search terms.</p>'' @
     [CHR 0x0A] @ ''      </div>'' @
     [CHR 0x0A] @ ''    ''\<close>

text \<open>
  \<^verbatim>\<open>renderTours\<close>: the count is written first; for an empty array the fixed block is
  shown; otherwise \<^verbatim>\<open>[...filteredTours]\<close> makes a new array at reference \<open>r\<close>, \<^verbatim>\<open>sort\<close>
  writes its result to that same reference, and the cards of the array at \<open>r\<close> are joined
  with the empty separator.
\<close>

definition renderTours :: "(rat \<Rightarrow> string) \<Rightarrow> state \<Rightarrow> state" where
  "renderTours ns st =
     (let shown = heap st ! filteredTours st;
          st1 = st\<lparr>tourCount := decimal (length shown)\<rparr>
      in if length shown = 0 then st1\<lparr>toursContainer := noResults\<rparr>
         else
           let r = length (heap st1);
               st2 = st1\<lparr>heap := heap st1 @ [shown]\<rparr>;
               st3 = st2\<lparr>heap := (heap st2)[r := sortBy compareScore (heap st2 ! r)]\<rparr>
           in st3\<lparr>toursContainer := concat (map (createTourCard ns) (heap st3 ! r))\<rparr>)"

section \<open>Filter pipeline\<close>

text \<open>
  The callback of \<^verbatim>\<open>allTours.filter\<close>. A non-empty string is truthy, so a matcher is
  consulted only for a non-empty filter value, and the first one that fails decides. An
  exception of \<^verbatim>\<open>matchesActivity\<close> leaves the callback.
\<close>

definition keepTour :: "string \<Rightarrow> string \<Rightarrow> string \<Rightarrow> tour \<Rightarrow> error + bool" where
  "keepTour activity priceRange search t =
     (case (if activity \<noteq> [] then matchesActivity t activity else Inr True) of
        Inl e \<Rightarrow> Inl e
      | Inr a \<Rightarrow>
          if activity \<noteq> [] \<and> \<not> a then Inr False
          else if priceRange \<noteq> [] \<and> \<not> matchesPrice t priceRange then Inr False
          else if search \<noteq> [] \<and> \<not> matchesSearch t search then Inr False
          else Inr True)"

text \<open>\<^verbatim>\<open>Array.prototype.filter\<close> calls the callback from left to right and stops at the first
  exception.\<close>

fun filterE :: "('a \<Rightarrow> error + bool) \<Rightarrow> 'a list \<Rightarrow> error + 'a list" where
  "filterE f [] = Inr []"
| "filterE f (x # xs) =
     (case f x of
        Inl e \<Rightarrow> Inl e
      | Inr b \<Rightarrow>
          (case filterE f xs of
             Inl e \<Rightarrow> Inl e
           | Inr ys \<Rightarrow> Inr (if b then x # ys else ys)))"

text \<open>
  \<^verbatim>\<open>applyFilters\<close>: the result of \<^verbatim>\<open>filter\<close> is a new array, the variable
  \<^verbatim>\<open>filteredTours\<close> is set to it, then the view is rendered. When the callback raises,
  neither happens.
\<close>

definition applyFilters :: "(rat \<Rightarrow> string) \<Rightarrow> state \<Rightarrow> error + state" where
  "applyFilters ns st =
     (let activity = toLowerCase (activityFilter st);
          priceRange = priceFilter st;
          search = trim (toLowerCase (searchInput st))
      in case filterE (keepTour activity priceRange search) (heap st ! allTours st) of
           Inl e \<Rightarrow> Inl e
         | Inr kept \<Rightarrow>
             Inr (renderTours ns
                    (st\<lparr>heap := heap st @ [kept], filteredTours := length (heap st)\<rparr>)))"

section \<open>Debounce\<close>

text \<open>
  The host keeps the pending timers: a handle, the time at which the timer is due, and the
  arguments that its callback \<^verbatim>\<open>later\<close> has captured. Time is a count of milliseconds, and
  the host runs a timer at the time it is due. \<open>timeout\<close> is the variable of the closure
  that \<^verbatim>\<open>debounce\<close> returns, undefined at first. \<open>runs\<close> records each call of
  \<^verbatim>\<open>func\<close>: the time and the arguments.
\<close>

record 'a page =
  clock :: nat
  timers :: "(nat \<times> nat \<times> 'a) list"
  nextHandle :: nat
  timeout :: "nat option"
  app :: state
  runs :: "(nat \<times> 'a) list"

definition clearTimeout :: "nat option \<Rightarrow> 'a page \<Rightarrow> 'a page" where
  "clearTimeout h pg =
     (case h of
        None \<Rightarrow> pg
      | Some i \<Rightarrow> pg\<lparr>timers := filter (\<lambda>tm. fst tm \<noteq> i) (timers pg)\<rparr>)"

definition setTimeout :: "'a \<Rightarrow> nat \<Rightarrow> 'a page \<Rightarrow> nat \<times> 'a page" where
  "setTimeout args wait pg =
     (nextHandle pg,
      pg\<lparr>timers := timers pg @ [(nextHandle pg, clock pg + wait, args)],
         nextHandle := Suc (nextHandle pg)\<rparr>)"

definition later :: "('a \<Rightarrow> state \<Rightarrow> state) \<Rightarrow> 'a \<Rightarrow> 'a page \<Rightarrow> 'a page" where
  "later func args pg =
     (let pg1 = clearTimeout (timeout pg) pg
      in pg1\<lparr>app := func args (app pg1), runs := runs pg1 @ [(clock pg1, args)]\<rparr>)"

definition executedFunction :: "nat \<Rightarrow> 'a \<Rightarrow> 'a page \<Rightarrow> 'a page" where
  "executedFunction wait args pg =
     (let pg1 = clearTimeout (timeout pg) pg;
          (h, pg2) = setTimeout args wait pg1
      in pg2\<lparr>timeout := Some h\<rparr>)"

text \<open>The pending timer that is due first and not after \<open>T\<close>; of two that are due together,
  the one set first.\<close>

fun earliest :: "(nat \<times> nat \<times> 'a) list \<Rightarrow> (nat \<times> nat \<times> 'a) option" where
  "earliest [] = None"
| "earliest (tm # tms) =
     (case earliest tms of
        None \<Rightarrow> Some tm
      | Some tm' \<Rightarrow> if fst (snd tm') < fst (snd tm) then Some tm' else Some tm)"

definition nextDue :: "nat \<Rightarrow> 'a page \<Rightarrow> (nat \<times> nat \<times> 'a) option" where
  "nextDue T pg =
     (case earliest (timers pg) of
        None \<Rightarrow> None
      | Some tm \<Rightarrow> if fst (snd tm) \<le> T then Some tm else None)"

text \<open>The host lets time pass until \<open>T\<close>: each timer that is due by then is taken from the
  table and its callback is run at the time it is due.\<close>

function advance :: "('a \<Rightarrow> state \<Rightarrow> state) \<Rightarrow> nat \<Rightarrow> 'a page \<Rightarrow> 'a page" where
  "advance func T pg =
     (case nextDue T pg of
        None \<Rightarrow> pg\<lparr>clock := max (clock pg) T\<rparr>
      | Some tm \<Rightarrow>
          advance func T
            (later func (snd (snd tm))
               (pg\<lparr>clock := max (clock pg) (fst (snd tm)),
                   timers := filter (\<lambda>x. fst x \<noteq> fst tm) (timers pg)\<rparr>)))"
  by pat_completeness auto
termination
proof (relation "measure (\<lambda>(func, T, pg). length (timers pg))", goal_cases)
  case 1
  show ?case by simp
next
  case (2 func T pg tm)
  have mem: "earliest tms = Some x \<Longrightarrow> x \<in> set tms" for tms :: "(nat \<times> nat \<times> 'a) list" and x
    by (induction tms arbitrary: x) (auto split: option.splits if_splits)
  from 2 have "tm \<in> set (timers pg)"
    by (auto simp: nextDue_def split: option.splits if_splits dest: mem)
  then have less: "length (filter (\<lambda>x. fst x \<noteq> fst tm) (timers pg)) < length (timers pg)"
    by (intro length_filter_less[of tm]) auto
  have clear: "length (timers (clearTimeout h p)) \<le> length (timers p)"
    for h and p :: "'a page"
    by (cases h) (simp_all add: clearTimeout_def)
  have "length (timers (later func (snd (snd tm))
               (pg\<lparr>clock := max (clock pg) (fst (snd tm)),
                   timers := filter (\<lambda>x. fst x \<noteq> fst tm) (timers pg)\<rparr>)))
        \<le> length (filter (\<lambda>x. fst x \<noteq> fst tm) (timers pg))"
    using clear [of "timeout pg" "pg\<lparr>clock := max (clock pg) (fst (snd tm)),
                   timers := filter (\<lambda>x. fst x \<noteq> fst tm) (timers pg)\<rparr>"]
    by (simp add: later_def Let_def)
  with less show ?case by simp
qed

declare advance.simps [simp del]

text \<open>
  An \<^verbatim>\<open>input\<close> event at time \<open>t\<close>: the host has let the time pass, the control holds the
  new text \<open>v\<close>, and the listener made by \<^verbatim>\<open>debounce(func, wait)\<close> is called with the event
  \<open>ev\<close>.
\<close>

definition inputEvent ::
  "('a \<Rightarrow> state \<Rightarrow> state) \<Rightarrow> nat \<Rightarrow> nat \<times> string \<times> 'a \<Rightarrow>
   'a page \<Rightarrow> 'a page" where
  "inputEvent func wait e pg =
     (let pg1 = advance func (fst e) pg;
          pg2 = pg1\<lparr>app := (app pg1)\<lparr>searchInput := fst (snd e)\<rparr>\<rparr>
      in executedFunction wait (snd (snd e)) pg2)"

fun inputEvents ::
  "('a \<Rightarrow> state \<Rightarrow> state) \<Rightarrow> nat \<Rightarrow> (nat \<times> string \<times> 'a) list \<Rightarrow>
   'a page \<Rightarrow> 'a page" where
  "inputEvents func wait [] pg = pg"
| "inputEvents func wait (e # es) pg = inputEvents func wait es (inputEvent func wait e pg)"

text \<open>
  \<^verbatim>\<open>setupFilters\<close> gives the search control the listener \<^verbatim>\<open>debounce(applyFilters, 300)\<close>.
  \<^verbatim>\<open>applyFilters\<close> ignores the event; when it raises, the exception ends the callback and
  the state stays as it was.
\<close>

definition recompute :: "(rat \<Rightarrow> string) \<Rightarrow> 'a \<Rightarrow> state \<Rightarrow> state" where
  "recompute ns ev st = (case applyFilters ns st of Inl e \<Rightarrow> st | Inr st' \<Rightarrow> st')"

definition searchListener ::
  "(rat \<Rightarrow> string) \<Rightarrow> (nat \<times> string \<times> 'a) list \<Rightarrow> 'a page \<Rightarrow> 'a page" where
  "searchListener ns es pg = inputEvents (recompute ns) 300 es pg"

section \<open>Reference data\<close>

text \<open>The two listings of the first end-to-end scenario of the specification, and variants
  of them.\<close>

definition sunsetAirboat :: tour where
  "sunsetAirboat =
     \<lparr>id_f = None, name = Some ''Sunset Airboat Ride'', company = None, description = None,
      tags = Some [''airboat'', ''sunset''], price = Some 75, durationText = None,
      freeCancellation = None, image_f = None, bookingLink = None, qualityScore = Some 9\<rparr>"

definition gatorKayak :: tour where
  "gatorKayak =
     \<lparr>id_f = None, name = Some ''Gator Spotting Kayak'', company = None, description = None,
      tags = Some [''kayak'', ''wildlife''], price = Some 40, durationText = None,
      freeCancellation = None, image_f = None, bookingLink = None, qualityScore = Some 7\<rparr>"

definition freeTour :: tour where
  "freeTour = gatorKayak\<lparr>price := Some 0\<rparr>"

definition unpricedTour :: tour where
  "unpricedTour = gatorKayak\<lparr>price := None\<rparr>"

section \<open>Notions of the specification\<close>

text \<open>
  The candidate text of the search matcher in the words of the specification: the name,
  the company, the description and all tags, joined with single spaces and lowercased,
  where a field that is absent stands as the empty text.
\<close>

definition fieldText :: "string option \<Rightarrow> string" where
  "fieldText f = (case f of None \<Rightarrow> [] | Some s \<Rightarrow> s)"

fun spaceJoined :: "string list \<Rightarrow> string" where
  "spaceJoined [] = []"
| "spaceJoined (x # xs) = x @ concat (map (\<lambda>y. CHR '' '' # y) xs)"

definition candidateText :: "tour \<Rightarrow> string" where
  "candidateText t =
     toLowerCase (spaceJoined
       (fieldText (name t) # fieldText (company t) # fieldText (description t)
        # (case tags t of None \<Rightarrow> [] | Some ts \<Rightarrow> ts)))"

text \<open>
  The claims about \<^verbatim>\<open>truncate\<close> and \<^verbatim>\<open>cleanDuration\<close> speak of trimming at the end only,
  of a label that is stripped at the start only, and of runs of line breaks that become one
  space. These readings are written down here, to be compared with the code.
\<close>

definition trimEnd :: "string \<Rightarrow> string" where
  "trimEnd s = rev (dropWhile isWhiteSpace (rev s))"

definition stripLeadingLabel :: "string \<Rightarrow> string" where
  "stripLeadingLabel s = (if startsWith (toLowerCase s) ''duration'' then drop 8 s else s)"

fun collapseLineBreaks :: "string \<Rightarrow> string" where
  "collapseLineBreaks [] = []"
| "collapseLineBreaks [c] = [if c = CHR 0x0A then CHR '' '' else c]"
| "collapseLineBreaks (c # d # cs) =
     (if c = CHR 0x0A \<and> d = CHR 0x0A then collapseLineBreaks (d # cs)
      else (if c = CHR 0x0A then CHR '' '' else c) # collapseLineBreaks (d # cs))"

definition cleanDurationAsClaimed :: "string \<Rightarrow> string" where
  "cleanDurationAsClaimed s = trim (collapseLineBreaks (stripLeadingLabel s))"

text \<open>The word of the label occurs somewhere in a text, in any mix of cases; a text is
  that word.\<close>

definition hasDuration :: "string \<Rightarrow> bool" where
  "hasDuration s = includes_str (toLowerCase s) ''duration''"

definition isDurationWord :: "string \<Rightarrow> bool" where
  "isDurationWord w \<longleftrightarrow> toLowerCase w = ''duration''"

text \<open>
  A duration text cut at the occurrences of the word: a list of segments, each the word in
  some mix of cases and the text up to the next occurrence. \<open>withLabels\<close> is the text of
  the segments, \<open>withoutLabels\<close> is that text without the words and without the white
  space that follows each of them.
\<close>

definition labelled :: "(string \<times> string) list \<Rightarrow> bool" where
  "labelled segs =
     list_all (\<lambda>seg. isDurationWord (fst seg) \<and> \<not> hasDuration (snd seg)) segs"

definition withLabels :: "(string \<times> string) list \<Rightarrow> string" where
  "withLabels segs = concat (map (\<lambda>seg. fst seg @ snd seg) segs)"

definition withoutLabels :: "(string \<times> string) list \<Rightarrow> string" where
  "withoutLabels segs = concat (map (\<lambda>seg. dropWhile isWhiteSpace (snd seg)) segs)"

text \<open>A description of 101 characters that starts with a space, and duration texts.\<close>

definition paddedDescription :: string where
  "paddedDescription = CHR '' '' # replicate 100 (CHR ''a'')"

definition durationInside :: string where
  "durationInside = ''2 hours Duration of tour''"

definition durationBreaks :: string where
  "durationBreaks = ''2 hours'' @ [CHR 0x0A, CHR 0x0A] @ ''guided''"

definition durationTwice :: "(string \<times> string) list" where
  "durationTwice =
     [(''Duration'', '': 2 hours ''), (''DURATION'', [CHR 0x0A, CHR 0x0A] @ ''guided'')]"

text \<open>
  A printer of numbers for the examples: it agrees with the host on the integers that the
  examples print.
\<close>

definition integerToString :: "rat \<Rightarrow> string" where
  "integerToString r = (if r < 0 then ''-'' else []) @ decimal (nat \<lfloor>\<bar>r\<bar>\<rfloor>)"

text \<open>The state after a load of two listings, the one with the lower score first:
  \<^verbatim>\<open>filteredTours\<close> is a copy of \<^verbatim>\<open>allTours\<close>.\<close>

definition loadedState :: state where
  "loadedState =
     \<lparr>heap = [[gatorKayak, sunsetAirboat], [gatorKayak, sunsetAirboat]],
      allTours = 0, filteredTours = 1,
      activityFilter = [], priceFilter = [], searchInput = [],
      tourCount = [], toursContainer = []\<rparr>"

text \<open>A listing passes the filters when, for every filter value that is not empty, its
  matcher returns true.\<close>

definition passes :: "string \<Rightarrow> string \<Rightarrow> string \<Rightarrow> tour \<Rightarrow> bool" where
  "passes activity priceRange search t \<longleftrightarrow>
     (activity = [] \<or> matchesActivity t activity = Inr True) \<and>
     (priceRange = [] \<or> matchesPrice t priceRange) \<and>
     (search = [] \<or> matchesSearch t search)"

text \<open>A listing whose name is markup, and a listing with every text field present.\<close>

definition markupTour :: tour where
  "markupTour = gatorKayak\<lparr>name := Some ''<img src=x onerror=alert(1)>''\<rparr>"

definition fullTour :: tour where
  \<open>fullTour =
     \<lparr>id_f = Some ''t-17'', name = Some ''Sunset <b>Airboat</b> Ride'',
      company = Some ''Glades & Co'', description = Some ''See "gators" up close.'',
      tags = Some [''airboat'', ''sunset''], price = Some 75,
      durationText = Some ''Duration: 2 hours'', freeCancellation = Some True,
      image_f = Some ''img/a.jpg'', bookingLink = Some ''https://example.com/?a=1&b=2'',
      qualityScore = Some 9\<rparr>\<close>

text \<open>
  A burst: input events in the order of their times, each less than \<open>w\<close> milliseconds
  after the one before. \<open>pending\<close> says that the page is at time \<open>t\<close> with exactly one timer,
  due at \<open>t + w\<close>, that holds the arguments \<open>a\<close> and is the one the variable
  \<open>timeout\<close> names; \<open>atMostOne\<close> says that no timer is pending or only the one that
  \<open>timeout\<close> names.
\<close>

fun burst :: "nat \<Rightarrow> (nat \<times> string \<times> 'a) list \<Rightarrow> bool" where
  "burst w [] = True"
| "burst w [e] = True"
| "burst w (e # e' # es) = (fst e \<le> fst e' \<and> fst e' < fst e + w \<and> burst w (e' # es))"

definition pending ::
  "nat \<Rightarrow> 'a page \<Rightarrow> nat \<Rightarrow> 'a \<Rightarrow> state \<Rightarrow> (nat \<times> 'a) list \<Rightarrow> bool" where
  "pending w pg t a st rs \<longleftrightarrow>
     clock pg = t \<and> (\<exists>h. timers pg = [(h, t + w, a)] \<and> timeout pg = Some h) \<and>
     app pg = st \<and> runs pg = rs"

definition atMostOne :: "'a page \<Rightarrow> bool" where
  "atMostOne pg \<longleftrightarrow>
     timers pg = [] \<or> (\<exists>h d a. timers pg = [(h, d, a)] \<and> timeout pg = Some h)"

text \<open>A page on which nothing has been typed yet, and three keystrokes 120 and 299
  milliseconds apart.\<close>

definition freshPage :: "unit page" where
  "freshPage =
     \<lparr>clock = 0, timers = [], nextHandle = 1, timeout = None, app = loadedState,
      runs = []\<rparr>"

definition typingBurst :: "(nat \<times> string \<times> unit) list" where
  "typingBurst = [(1000, ''k'', ()), (1120, ''ka'', ()), (1419, ''kay'', ())]"

section \<open>Strings: basic facts\<close>

lemma startsWith_prefix: "startsWith s sub \<longleftrightarrow> prefix sub s"
  by (induction s sub rule: startsWith.induct) auto

lemma includes_str_sublist: "includes_str s sub \<longleftrightarrow> sublist sub s"
proof (induction s)
  case Nil
  show ?case by (cases sub) auto
next
  case (Cons x xs)
  then show ?case by (simp add: sublist_Cons_right startsWith_prefix)
qed

lemma join_Some_spaceJoined: "join (map Some xs) '' '' = spaceJoined xs"
  by (induction xs rule: induct_list012) auto

section \<open>The price matcher\<close>

lemma matchesPrice_no_price:
  "price t = None \<or> price t = Some 0 \<Longrightarrow> matchesPrice t bucket \<longleftrightarrow> bucket = []"
  by (auto simp: matchesPrice_def)

lemma matchesPrice_priced:
  "price t = Some p \<Longrightarrow> p \<noteq> 0 \<Longrightarrow>
   matchesPrice t bucket \<longleftrightarrow>
     (if bucket = ''0-50'' then p \<le> 50
      else if bucket = ''50-100'' then 50 < p \<and> p \<le> 100
      else if bucket = ''100-200'' then 100 < p \<and> p \<le> 200
      else if bucket = ''200+'' then 200 < p
      else True)"
  by (simp add: matchesPrice_def)

text \<open>
  Claim C1, as the code has it. A price that is present and equal to 0 is treated like a
  missing price: such a listing is accepted for the empty bucket alone, so it is rejected
  for "0-50" as well as for "50-100", "100-200" and "200+". The inclusive bound of "0-50"
  holds for the prices that are not zero: a listing with such a price of at most 50 is
  accepted for "0-50" and rejected for the three other named buckets.
\<close>

theorem matchesPrice_zero_like_absent:
  "(price t = Some 0 \<or> price t = None \<longrightarrow> (matchesPrice t bucket \<longleftrightarrow> bucket = [])) \<and>
   (price t = Some p \<and> p \<noteq> 0 \<and> p \<le> 50 \<longrightarrow>
      matchesPrice t ''0-50'' \<and> \<not> matchesPrice t ''50-100'' \<and>
      \<not> matchesPrice t ''100-200'' \<and> \<not> matchesPrice t ''200+'')"
  by (auto simp: matchesPrice_no_price matchesPrice_priced)

theorem matchesPrice_zero_like_absent_witness:
  "price freeTour = Some 0 \<and> \<not> matchesPrice freeTour ''0-50'' \<and> matchesPrice freeTour [] \<and>
   price gatorKayak = Some 40 \<and> (40 :: rat) \<noteq> 0 \<and> (40 :: rat) \<le> 50 \<and>
   matchesPrice gatorKayak ''0-50'' \<and> \<not> matchesPrice gatorKayak ''50-100'' \<and>
   \<not> matchesPrice gatorKayak ''100-200'' \<and> \<not> matchesPrice gatorKayak ''200+''"
  using matchesPrice_zero_like_absent [of freeTour "''0-50''" 0]
    matchesPrice_zero_like_absent [of freeTour "[]" 0]
    matchesPrice_zero_like_absent [of gatorKayak "[]" 40]
  by (simp add: freeTour_def gatorKayak_def)

text \<open>The claim as it is written fails: the listing with price 0 is rejected for "0-50".\<close>

theorem matchesPrice_zero_counterexample:
  "price freeTour = Some 0 \<and> \<not> matchesPrice freeTour ''0-50''"
  by (simp add: freeTour_def gatorKayak_def matchesPrice_def)

text \<open>
  Claim C4, as the code has it. For a bucket identifier outside the four named ones, the
  price matcher accepts exactly the listings that have a price other than 0, and, when the
  identifier is empty, every listing. A listing without a price is therefore rejected for
  an unrecognised bucket that is not empty.
\<close>

theorem matchesPrice_unrecognised:
  "bucket \<notin> {''0-50'', ''50-100'', ''100-200'', ''200+''} \<Longrightarrow>
   matchesPrice t bucket \<longleftrightarrow> bucket = [] \<or> (\<exists>p. price t = Some p \<and> p \<noteq> 0)"
  by (cases "price t") (auto simp: matchesPrice_def)

theorem matchesPrice_unrecognised_witness:
  "''weekend'' \<notin> {''0-50'', ''50-100'', ''100-200'', ''200+''} \<and>
   matchesPrice sunsetAirboat ''weekend'' \<and> (\<exists>p. price sunsetAirboat = Some p \<and> p \<noteq> 0)"
  using matchesPrice_unrecognised [of "''weekend''" sunsetAirboat]
  by (simp add: sunsetAirboat_def)

text \<open>The claim as it is written fails: a listing without a price is rejected for the
  unrecognised bucket "weekend".\<close>

theorem matchesPrice_unrecognised_counterexample:
  "''weekend'' \<noteq> [] \<and> ''weekend'' \<notin> {''0-50'', ''50-100'', ''100-200'', ''200+''} \<and>
   price unpricedTour = None \<and> \<not> matchesPrice unpricedTour ''weekend''"
  by (simp add: unpricedTour_def gatorKayak_def matchesPrice_def)

section \<open>The search matcher\<close>

lemma searchable_candidateText: "searchable t = candidateText t"
proof -
  let ?ts = "case tags t of None \<Rightarrow> [] | Some ts \<Rightarrow> ts"
  have "join ([name t, company t, description t] @ map Some ?ts) '' ''
      = join (map Some (fieldText (name t) # fieldText (company t)
                        # fieldText (description t) # ?ts)) '' ''"
    by (cases ?ts) (auto simp: fieldText_def split: option.splits)
  then show ?thesis
    unfolding searchable_def candidateText_def by (simp only: join_Some_spaceJoined)
qed

text \<open>
  Claim C3. For every listing, with any of its fields absent, and every query, the search
  matcher returns true exactly when the query is a contiguous part of the candidate text:
  the lowercased, space-joined name, company, description and tags, an absent field being
  the empty text.
\<close>

theorem matchesSearch_substring:
  "matchesSearch t q \<longleftrightarrow> sublist q (candidateText t)"
  by (simp add: matchesSearch_def includes_str_sublist searchable_candidateText)

theorem matchesSearch_substring_witness:
  "matchesSearch gatorKayak ''kayak   kayak'' \<and>
   sublist ''kayak   kayak'' (candidateText gatorKayak)"
  using matchesSearch_substring [of gatorKayak "''kayak   kayak''"]
  by (simp add: matchesSearch_def searchable_def gatorKayak_def toLowerCase_def
      toLowerChar_def)

section \<open>Truncation\<close>

lemma trim_decomposition:
  "\<exists>l body r. s = l @ body @ r \<and> (\<forall>c\<in>set l. isWhiteSpace c) \<and> (\<forall>c\<in>set r. isWhiteSpace c) \<and>
     (body \<noteq> [] \<longrightarrow> \<not> isWhiteSpace (hd body) \<and> \<not> isWhiteSpace (last body)) \<and> trim s = body"
proof -
  let ?l = "takeWhile isWhiteSpace s"
  let ?m = "dropWhile isWhiteSpace s"
  let ?r = "rev (takeWhile isWhiteSpace (rev ?m))"
  let ?b = "rev (dropWhile isWhiteSpace (rev ?m))"
  have m: "?m = ?b @ ?r"
  proof -
    have "rev ?m = takeWhile isWhiteSpace (rev ?m) @ dropWhile isWhiteSpace (rev ?m)"
      by simp
    then have "rev (rev ?m) = rev (takeWhile isWhiteSpace (rev ?m) @ dropWhile isWhiteSpace (rev ?m))"
      by (rule arg_cong)
    then show ?thesis by (simp only: rev_rev_ident rev_append)
  qed
  have s: "s = ?l @ ?b @ ?r"
    using m takeWhile_dropWhile_id [of isWhiteSpace s] by simp
  have l: "\<forall>c\<in>set ?l. isWhiteSpace c"
    by (auto dest: set_takeWhileD)
  have r: "\<forall>c\<in>set ?r. isWhiteSpace c"
    by (auto dest: set_takeWhileD)
  have ends: "\<not> isWhiteSpace (hd ?b) \<and> \<not> isWhiteSpace (last ?b)" if ne: "?b \<noteq> []"
  proof
    from ne have "hd ?m = hd ?b" using m by (metis hd_append2)
    moreover from ne m have "?m \<noteq> []" by (metis Nil_is_append_conv)
    ultimately show "\<not> isWhiteSpace (hd ?b)" using hd_dropWhile [of isWhiteSpace s] by simp
    from ne have "dropWhile isWhiteSpace (rev ?m) \<noteq> []" by simp
    then have "\<not> isWhiteSpace (hd (dropWhile isWhiteSpace (rev ?m)))" by (rule hd_dropWhile)
    then show "\<not> isWhiteSpace (last ?b)" using ne by (simp add: last_rev)
  qed
  have "trim s = ?b" by (simp add: trim_def)
  with s l r ends show ?thesis by blast
qed

text \<open>
  Claim C7, as the code has it. A description of more than 100 characters is rendered as
  its first 100 characters with the white space removed at both ends, the leading as
  well as the trailing, followed by the ellipsis: what stands before the ellipsis neither
  starts nor ends with white space, and it has fewer than 100 characters when white space
  was removed. A description of at most 100 characters is rendered as it is.
\<close>

theorem truncate_trims_both_ends:
  "(length d \<le> 100 \<longrightarrow> truncate_str d 100 = d) \<and>
   (100 < length d \<longrightarrow>
      (\<exists>l body r. take 100 d = l @ body @ r \<and>
         (\<forall>c\<in>set l. isWhiteSpace c) \<and> (\<forall>c\<in>set r. isWhiteSpace c) \<and>
         (body \<noteq> [] \<longrightarrow> \<not> isWhiteSpace (hd body) \<and> \<not> isWhiteSpace (last body)) \<and>
         truncate_str d 100 = body @ ''...''))"
proof (intro conjI impI)
  assume "length d \<le> 100"
  then show "truncate_str d 100 = d" by (simp add: truncate_str_def)
next
  assume long: "100 < length d"
  then have "truncate_str d 100 = trim (take 100 d) @ ''...''"
    by (auto simp: truncate_str_def)
  with trim_decomposition [of "take 100 d"]
  show "\<exists>l body r. take 100 d = l @ body @ r \<and>
         (\<forall>c\<in>set l. isWhiteSpace c) \<and> (\<forall>c\<in>set r. isWhiteSpace c) \<and>
         (body \<noteq> [] \<longrightarrow> \<not> isWhiteSpace (hd body) \<and> \<not> isWhiteSpace (last body)) \<and>
         truncate_str d 100 = body @ ''...''"
    by metis
qed

lemma padded_length: "length paddedDescription = 101"
  by (simp add: paddedDescription_def)

lemma padded_take: "take 100 paddedDescription = CHR '' '' # replicate 99 (CHR ''a'')"
  by (simp add: paddedDescription_def)

lemma dropWhile_replicate_a:
  "0 < n \<Longrightarrow>
   dropWhile isWhiteSpace (replicate n (CHR ''a'') @ s) = replicate n (CHR ''a'') @ s"
  by (cases n) (simp_all add: isWhiteSpace_def)

lemma padded_truncate: "truncate_str paddedDescription 100 = replicate 99 (CHR ''a'') @ ''...''"
proof -
  have "trim (CHR '' '' # replicate 99 (CHR ''a'')) = replicate 99 (CHR ''a'')"
    using dropWhile_replicate_a [of 99 "[]"]  
    by (simp add: trim_def isWhiteSpace_def)
  then show ?thesis
    using padded_length padded_take by (simp add: truncate_str_def paddedDescription_def)
qed

theorem truncate_trims_both_ends_witness:
  "100 < length paddedDescription \<and>
   (\<exists>l body r. take 100 paddedDescription = l @ body @ r \<and>
         (\<forall>c\<in>set l. isWhiteSpace c) \<and> (\<forall>c\<in>set r. isWhiteSpace c) \<and>
         (body \<noteq> [] \<longrightarrow> \<not> isWhiteSpace (hd body) \<and> \<not> isWhiteSpace (last body)) \<and>
         truncate_str paddedDescription 100 = body @ ''...'') \<and>
   length ''Fun'' \<le> 100 \<and> truncate_str ''Fun'' 100 = ''Fun''"
  using truncate_trims_both_ends [of paddedDescription] truncate_trims_both_ends [of "''Fun''"]
  by (simp add: padded_length)

text \<open>The claim as it is written fails: for the padded description of 101 characters the
  leading space is removed too, and 99 characters stand before the ellipsis.\<close>

theorem truncate_trailing_only_counterexample:
  "length paddedDescription = 101 \<and>
   truncate_str paddedDescription 100 = replicate 99 (CHR ''a'') @ ''...'' \<and>
   truncate_str paddedDescription 100 \<noteq> trimEnd (take 100 paddedDescription) @ ''...'' \<and>
   length (truncate_str paddedDescription 100) = 99 + length ''...''"
proof -
  have "trimEnd (take 100 paddedDescription) = CHR '' '' # replicate 99 (CHR ''a'')"
    using dropWhile_replicate_a [of 99 "[]"] 
    by (simp add: padded_take trimEnd_def isWhiteSpace_def)
  then show ?thesis
    by (simp add: padded_length padded_truncate)
qed

section \<open>Duration texts\<close>

lemma prefix_nth: "prefix p xs \<Longrightarrow> k < length p \<Longrightarrow> xs ! k = p ! k"
  by (auto simp: prefix_def nth_append)

lemma toLowerCase_append: "toLowerCase (xs @ ys) = toLowerCase xs @ toLowerCase ys"
  by (simp add: toLowerCase_def)

lemma replaceDuration_unfold:
  "s \<noteq> [] \<Longrightarrow> replaceDuration s =
     (if startsWith (toLowerCase s) ''duration''
      then replaceDuration (dropWhile isWhiteSpace (drop 8 s))
      else hd s # replaceDuration (tl s))"
  by (cases s) simp_all

lemma hasDuration_Cons:
  "hasDuration (c # cs) \<longleftrightarrow> startsWith (toLowerCase (c # cs)) ''duration'' \<or> hasDuration cs"
  by (simp add: hasDuration_def toLowerCase_def)

lemma replaceDuration_none: "\<not> hasDuration s \<Longrightarrow> replaceDuration s = s"
proof (induction s)
  case Nil
  show ?case by simp
next
  case (Cons c cs)
  then show ?case by (simp add: hasDuration_Cons del: startsWith.simps)
qed

lemma hasDuration_drop: "hasDuration (drop n s) \<Longrightarrow> hasDuration s"
proof -
  assume "hasDuration (drop n s)"
  then have "sublist ''duration'' (drop n (toLowerCase s))"
    by (simp add: hasDuration_def includes_str_sublist toLowerCase_def drop_map)
  moreover have "sublist (drop n (toLowerCase s)) (toLowerCase s)"
    by (rule sublist_drop)
  ultimately have "sublist ''duration'' (toLowerCase s)"
    by (rule sublist_order.order.trans)
  then show ?thesis by (simp add: hasDuration_def includes_str_sublist)
qed

lemma hasDuration_dropWhile: "hasDuration (dropWhile P s) \<Longrightarrow> hasDuration s"
  by (metis dropWhile_eq_drop hasDuration_drop)

lemma duration_single_d: "0 < k \<Longrightarrow> k < 8 \<Longrightarrow> ''duration'' ! k \<noteq> CHR ''d''"
proof -
  assume "0 < k" "k < 8"
  then have "k = 1 \<or> k = 2 \<or> k = 3 \<or> k = 4 \<or> k = 5 \<or> k = 6 \<or> k = 7" by arith
  then show ?thesis by (elim disjE) simp_all
qed

lemma no_match_across:
  assumes pre: "\<not> hasDuration pre" and ne: "pre \<noteq> []" and w: "isDurationWord w"
  shows "\<not> startsWith (toLowerCase (pre @ w @ post)) ''duration''"
proof
  assume "startsWith (toLowerCase (pre @ w @ post)) ''duration''"
  then have p: "prefix ''duration'' (toLowerCase pre @ ''duration'' @ toLowerCase post)"
    using w by (simp add: startsWith_prefix toLowerCase_append isDurationWord_def)
  let ?k = "length (toLowerCase pre)"
  have k0: "0 < ?k" using ne by (simp add: toLowerCase_def)
  show False
  proof (cases "?k < 8")
    case True
    have "(toLowerCase pre @ ''duration'' @ toLowerCase post) ! ?k = CHR ''d''"
      by (simp add: nth_append)
    moreover have "(toLowerCase pre @ ''duration'' @ toLowerCase post) ! ?k = ''duration'' ! ?k"
      using p True by (intro prefix_nth) simp_all
    ultimately have "''duration'' ! ?k = CHR ''d''" by simp
    with duration_single_d [OF k0 True] show False by simp
  next
    case False
    then have "length ''duration'' \<le> length (toLowerCase pre)" by simp
    with p have "prefix ''duration'' (toLowerCase pre)"
      by (metis prefix_length_prefix prefixI)
    then have "sublist ''duration'' (toLowerCase pre)" by (rule prefix_imp_sublist)
    with pre show False by (simp add: hasDuration_def includes_str_sublist)
  qed
qed

lemma replaceDuration_occurrence:
  assumes w: "isDurationWord w"
  shows "\<not> hasDuration pre \<Longrightarrow>
    replaceDuration (pre @ w @ post) = pre @ replaceDuration (dropWhile isWhiteSpace post)"
proof (induction pre)
  case Nil
  have "length (toLowerCase w) = length ''duration''"
    using w by (simp add: isDurationWord_def)
  then have len: "length w = 8" by (simp add: toLowerCase_def)
  then have ne: "w @ post \<noteq> []" by auto
  have "startsWith (toLowerCase (w @ post)) ''duration''"
    using w by (simp add: startsWith_prefix toLowerCase_append isDurationWord_def)
  with replaceDuration_unfold [OF ne] len show ?case by simp
next
  case (Cons x pre)
  have "\<not> startsWith (toLowerCase ((x # pre) @ w @ post)) ''duration''"
    using Cons.prems w by (intro no_match_across) simp_all
  moreover have "\<not> hasDuration pre" using Cons.prems by (simp add: hasDuration_Cons)
  ultimately show ?case using Cons.IH by (simp del: startsWith.simps)
qed

lemma isDurationWord_hd: "isDurationWord w \<Longrightarrow> w \<noteq> [] \<and> \<not> isWhiteSpace (hd w)"
proof -
  assume w: "isDurationWord w"
  then obtain c cs where wc: "w = c # cs"
    by (cases w) (auto simp: isDurationWord_def toLowerCase_def)
  with w have "toLowerChar c = CHR ''d''"
    by (simp add: isDurationWord_def toLowerCase_def)
  then have "\<not> isWhiteSpace c"
    by (auto simp: toLowerChar_def isWhiteSpace_def split: option.splits if_splits)
  with wc show ?thesis by simp
qed

lemma dropWhile_before_label:
  assumes "segs = [] \<or> isDurationWord (fst (hd segs))"
  shows "dropWhile isWhiteSpace (p @ withLabels segs) = dropWhile isWhiteSpace p @ withLabels segs"
proof (cases segs)
  case Nil
  then show ?thesis by (simp add: withLabels_def)
next
  case (Cons seg rest)
  with assms have "isDurationWord (fst seg)" by simp
  from isDurationWord_hd [OF this] obtain c cs where "fst seg = c # cs" "\<not> isWhiteSpace c"
    by (cases "fst seg") auto
  then show ?thesis
    by (simp add: Cons withLabels_def dropWhile_append)
qed

lemma replaceDuration_labels:
  "\<not> hasDuration p0 \<Longrightarrow> labelled segs \<Longrightarrow>
   replaceDuration (p0 @ withLabels segs) = p0 @ withoutLabels segs"
proof (induction segs arbitrary: p0)
  case Nil
  then show ?case by (simp add: withLabels_def withoutLabels_def replaceDuration_none)
next
  case (Cons seg segs)
  obtain w p where seg: "seg = (w, p)" by (cases seg)
  from Cons.prems have w: "isDurationWord w" and p: "\<not> hasDuration p" and l: "labelled segs"
    by (simp_all add: labelled_def seg)
  have first: "segs = [] \<or> isDurationWord (fst (hd segs))"
    using l by (cases segs) (simp_all add: labelled_def)
  have p': "\<not> hasDuration (dropWhile isWhiteSpace p)"
    using p hasDuration_dropWhile by blast
  have "replaceDuration (p0 @ withLabels (seg # segs))
      = replaceDuration (p0 @ w @ (p @ withLabels segs))"
    by (simp add: withLabels_def seg)
  also have "\<dots> = p0 @ replaceDuration (dropWhile isWhiteSpace (p @ withLabels segs))"
    using Cons.prems(1) w by (rule replaceDuration_occurrence [rotated])
  also have "\<dots> = p0 @ replaceDuration (dropWhile isWhiteSpace p @ withLabels segs)"
    by (simp only: dropWhile_before_label [OF first])
  also have "\<dots> = p0 @ dropWhile isWhiteSpace p @ withoutLabels segs"
    by (simp only: Cons.IH [OF p' l])
  finally show ?case by (simp add: withoutLabels_def seg)
qed

text \<open>
  Claim C8, as the code has it. Every occurrence of the word "Duration", in any mix of
  cases, at the start of the text or anywhere else, is removed together with the white
  space that follows it; in what remains every line feed is replaced by one space (two
  line feeds give two spaces), and the white space at both ends is removed.
\<close>

theorem cleanDuration_every_occurrence:
  assumes "\<not> hasDuration p0" and "labelled segs"
  shows "cleanDuration (p0 @ withLabels segs)
       = trim (replaceNewlines (p0 @ withoutLabels segs))"
  using assms by (simp add: cleanDuration_def replaceDuration_labels)

theorem cleanDuration_every_occurrence_witness:
  "\<not> hasDuration ''Trip '' \<and> labelled durationTwice \<and>
   cleanDuration (''Trip '' @ withLabels durationTwice) = ''Trip : 2 hours guided'' \<and>
   \<not> hasDuration durationBreaks \<and> labelled [] \<and>
   cleanDuration (durationBreaks @ withLabels []) = ''2 hours  guided''"
  using cleanDuration_every_occurrence [of "''Trip ''" durationTwice]
    cleanDuration_every_occurrence [of durationBreaks "[]"]
  by (simp add: durationTwice_def durationBreaks_def labelled_def withLabels_def
      withoutLabels_def hasDuration_def isDurationWord_def toLowerCase_def toLowerChar_def
      isWhiteSpace_def trim_def replaceNewlines_def)

text \<open>The claim as it is written fails: the word is removed inside the text as well, and
  two line feeds become two spaces.\<close>

theorem cleanDuration_leading_only_counterexample:
  "cleanDuration durationInside = ''2 hours of tour'' \<and>
   cleanDurationAsClaimed durationInside = ''2 hours Duration of tour'' \<and>
   cleanDuration durationBreaks = ''2 hours  guided'' \<and>
   cleanDurationAsClaimed durationBreaks = ''2 hours guided''"
  by (simp add: durationInside_def durationBreaks_def cleanDuration_def
      cleanDurationAsClaimed_def stripLeadingLabel_def toLowerCase_def toLowerChar_def
      isWhiteSpace_def trim_def replaceNewlines_def)

section \<open>Rendering\<close>

lemma insertBy_compareScore:
  "insertBy compareScore x ys = insort_key (\<lambda>t. - score t) x ys"
  by (induction ys) (simp_all add: compareScore_def)

lemma sortBy_compareScore: "sortBy compareScore xs = sort_key (\<lambda>t. - score t) xs"
proof -
  have "insertBy compareScore = insort_key (\<lambda>t. - score t)"
    by (intro ext) (rule insertBy_compareScore)
  then show ?thesis by (simp add: sortBy_def sort_key_def)
qed

lemma renderTours_vars:
  "allTours (renderTours ns st) = allTours st"
  "filteredTours (renderTours ns st) = filteredTours st"
  "activityFilter (renderTours ns st) = activityFilter st"
  "priceFilter (renderTours ns st) = priceFilter st"
  "searchInput (renderTours ns st) = searchInput st"
  by (simp_all add: renderTours_def Let_def)

lemma renderTours_heap:
  "r < length (heap st) \<Longrightarrow> heap (renderTours ns st) ! r = heap st ! r"
  by (simp add: renderTours_def Let_def nth_append)

lemma renderTours_heap_length: "length (heap st) \<le> length (heap (renderTours ns st))"
  by (simp add: renderTours_def Let_def)

lemma renderTours_view:
  "tourCount (renderTours ns st) = decimal (length (heap st ! filteredTours st))"
  "toursContainer (renderTours ns st) =
     (if heap st ! filteredTours st = [] then noResults
      else concat (map (createTourCard ns)
             (sort_key (\<lambda>t. - score t) (heap st ! filteredTours st))))"
  by (simp_all add: renderTours_def Let_def sortBy_compareScore)

lemma renderTours_wellFormed: "wellFormed st \<Longrightarrow> wellFormed (renderTours ns st)"
  using renderTours_heap_length [of st ns]
  by (simp add: wellFormed_def renderTours_vars)

text \<open>
  Claim C10. Rendering leaves the application state as it was: after \<^verbatim>\<open>renderTours\<close> the
  two variables refer to the arrays they referred to before, and these arrays hold the same
  listings in the same order. The sort by descending score works on a new array and shows
  in the view only. A second render leaves the count and the cards of the first.
\<close>

theorem renderTours_keeps_state:
  assumes wf: "wellFormed st"
  shows "allTours (renderTours ns st) = allTours st \<and>
     filteredTours (renderTours ns st) = filteredTours st \<and>
     heap (renderTours ns st) ! allTours st = heap st ! allTours st \<and>
     heap (renderTours ns st) ! filteredTours st = heap st ! filteredTours st \<and>
     toursContainer (renderTours ns st) =
       (if heap st ! filteredTours st = [] then noResults
        else concat (map (createTourCard ns)
               (sort_key (\<lambda>t. - score t) (heap st ! filteredTours st)))) \<and>
     tourCount (renderTours ns (renderTours ns st)) = tourCount (renderTours ns st) \<and>
     toursContainer (renderTours ns (renderTours ns st)) = toursContainer (renderTours ns st)"
proof -
  from wf have a: "allTours st < length (heap st)" and f: "filteredTours st < length (heap st)"
    by (simp_all add: wellFormed_def)
  have same: "heap (renderTours ns st) ! filteredTours (renderTours ns st)
      = heap st ! filteredTours st"
    using f by (simp add: renderTours_vars renderTours_heap)
  show ?thesis
    using a f same by (simp add: renderTours_vars renderTours_heap renderTours_view)
qed

theorem renderTours_keeps_state_witness:
  "wellFormed loadedState \<and>
   heap (renderTours integerToString loadedState) ! allTours loadedState
     = [gatorKayak, sunsetAirboat] \<and>
   heap (renderTours integerToString loadedState) ! filteredTours loadedState
     = [gatorKayak, sunsetAirboat] \<and>
   sort_key (\<lambda>t. - score t) (heap loadedState ! filteredTours loadedState)
     = [sunsetAirboat, gatorKayak]"
  using renderTours_keeps_state [of loadedState integerToString]
  by (simp add: wellFormed_def loadedState_def score_def gatorKayak_def sunsetAirboat_def)

section \<open>The activity matcher\<close>

lemma matchesActivity_returns:
  "\<not> List.member objectPrototype a \<Longrightarrow> \<exists>b. matchesActivity t a = Inr b"
  by (simp add: matchesActivity_def Let_def split: option.splits)

lemma matchesActivity_raises:
  "map_of activityMap a = None \<Longrightarrow> List.member objectPrototype a \<Longrightarrow>
   matchesActivity t a = Inl TypeError"
  by (simp add: matchesActivity_def Let_def)

text \<open>A token that is neither a key of the table nor a property name of
  \<^verbatim>\<open>Object.prototype\<close> is its own single keyword: the matcher tests whether it occurs in
  the lowercased tags or in the lowercased name.\<close>

lemma matchesActivity_fallback:
  "map_of activityMap a = None \<Longrightarrow> \<not> List.member objectPrototype a \<Longrightarrow>
   matchesActivity t a = Inr (sublist a (tagsText t) \<or> sublist a (nameText t))"
  by (simp add: matchesActivity_def Let_def includes_str_sublist)

text \<open>
  Claim C6 says that for every token without an entry in the table the matcher is the
  substring test of the token. The token "constructor" has no entry in the table, and for
  it the matcher raises a \<^verbatim>\<open>TypeError\<close> instead of returning the result of that test.
\<close>

theorem matchesActivity_inherited_key:
  "map_of activityMap ''constructor'' = None \<and>
   matchesActivity gatorKayak ''constructor'' = Inl TypeError"
  by (simp add: matchesActivity_def activityMap_def objectPrototype_def)

section \<open>The filter pipeline\<close>

text \<open>When the activity filter is not a property name of \<^verbatim>\<open>Object.prototype\<close>, the
  pipeline returns: the new array of \<^verbatim>\<open>filteredTours\<close> holds, in the order of the working
  set, the listings that pass, and the three tests can be made in any order.\<close>

lemma keepTour_returns:
  "\<not> List.member objectPrototype a \<Longrightarrow> keepTour a p s t = Inr (passes a p s t)"
  using matchesActivity_returns [of a t]
  by (auto simp: keepTour_def passes_def)

lemma filterE_returns:
  "(\<And>x. x \<in> set xs \<Longrightarrow> f x = Inr (P x)) \<Longrightarrow> filterE f xs = Inr (filter P xs)"
  by (induction xs) simp_all

lemma applyFilters_returns:
  assumes ok: "\<not> List.member objectPrototype (toLowerCase (activityFilter st))"
  shows "applyFilters ns st =
     Inr (renderTours ns
            (st\<lparr>heap := heap st @
                   [filter (passes (toLowerCase (activityFilter st)) (priceFilter st)
                              (trim (toLowerCase (searchInput st))))
                      (heap st ! allTours st)],
                filteredTours := length (heap st)\<rparr>))"
proof -
  let ?a = "toLowerCase (activityFilter st)"
  let ?s = "trim (toLowerCase (searchInput st))"
  have "filterE (keepTour ?a (priceFilter st) ?s) (heap st ! allTours st)
      = Inr (filter (passes ?a (priceFilter st) ?s) (heap st ! allTours st))"
    by (rule filterE_returns) (rule keepTour_returns [OF ok])
  then show ?thesis by (simp add: applyFilters_def Let_def)
qed

lemma applyFilters_filtered:
  assumes ok: "\<not> List.member objectPrototype (toLowerCase (activityFilter st))"
  shows "\<exists>st'. applyFilters ns st = Inr st' \<and>
      heap st' ! filteredTours st' =
        filter (passes (toLowerCase (activityFilter st)) (priceFilter st)
                  (trim (toLowerCase (searchInput st)))) (heap st ! allTours st) \<and>
      allTours st' = allTours st \<and>
      (\<forall>r < length (heap st). heap st' ! r = heap st ! r)"
  by (simp add: applyFilters_returns [OF ok] renderTours_vars renderTours_heap nth_append)

lemma passes_any_order:
  "filter (passes a p s) xs =
     filter (\<lambda>t. s = [] \<or> matchesSearch t s)
       (filter (\<lambda>t. a = [] \<or> matchesActivity t a = Inr True)
          (filter (\<lambda>t. p = [] \<or> matchesPrice t p) xs))"
  by (induction xs) (auto simp: passes_def)

text \<open>
  Claim C5 says that for every working set and every filter state the pipeline yields the
  listings that pass. For the activity filter "constructor" and a working set that is not
  empty, the pipeline raises a \<^verbatim>\<open>TypeError\<close>: no subset is made and nothing is
  rendered.
\<close>

theorem applyFilters_inherited_key:
  "applyFilters ns (loadedState\<lparr>activityFilter := ''constructor''\<rparr>) = Inl TypeError"
  by (simp add: applyFilters_def Let_def loadedState_def keepTour_def matchesActivity_def
      activityMap_def objectPrototype_def toLowerCase_def toLowerChar_def)

section \<open>Cards: the fields in the markup\<close>

lemma sublist_skip: "sublist xs zs \<Longrightarrow> sublist xs (ys @ zs)"
  by (simp add: sublist_append)

lemma sublist_skip2: "sublist xs zs \<Longrightarrow> sublist xs (a @ b @ zs)"
  by (intro sublist_skip)

lemma sublist_skip4: "sublist xs zs \<Longrightarrow> sublist xs (a @ b @ c @ d @ zs)"
  by (intro sublist_skip)

lemma sublist_skip8:
  "sublist xs zs \<Longrightarrow> sublist xs (a @ b @ c @ d @ e @ f @ g @ h @ zs)"
  by (intro sublist_skip)

text \<open>Where the fields stand in a card. Each proof steps over the parts of the template that
  come before.\<close>

lemma card_image:
  \<open>sublist (''<img src="'' @ interpolate (image_f t) @ ''" alt="'') (createTourCard ns t)\<close>
  unfolding createTourCard_def
  apply (rule sublist_skip4, rule sublist_skip)
  by (simp add: sublist_Cons_right)

lemma card_alt:
  \<open>sublist (''" alt="'' @ interpolate (name t) @ ''" loading="lazy">'')
     (createTourCard ns t)\<close>
  unfolding createTourCard_def
  apply (rule sublist_skip4, rule sublist_skip2, rule sublist_skip)
  by (simp add: sublist_Cons_right)

lemma card_tag:
  \<open>sublist (''<span class="tour-tag">'' @ firstTag t @ ''</span>'') (createTourCard ns t)\<close>
  unfolding createTourCard_def
  apply (rule sublist_skip8, rule sublist_skip4, rule sublist_skip2, rule sublist_skip)
  by (simp add: sublist_Cons_right)

lemma card_name:
  \<open>sublist (''<h3 class="tour-name">'' @ interpolate (name t) @ ''</h3>'')
     (createTourCard ns t)\<close>
  unfolding createTourCard_def
  apply (rule sublist_skip8, rule sublist_skip8, rule sublist_skip4, rule sublist_skip2,
      rule sublist_skip)
  by (simp add: sublist_Cons_right)

lemma card_company:
  \<open>sublist (''<p class="tour-company">'' @ interpolate (company t) @ ''</p>'')
     (createTourCard ns t)\<close>
  unfolding createTourCard_def
  apply (rule sublist_skip8, rule sublist_skip8, rule sublist_skip8, rule sublist_skip2,
      rule sublist_skip)
  by (simp add: sublist_Cons_right)

lemma card_description:
  \<open>sublist (''<p class="tour-description">'' @ truncate_str (descriptionOf t) 100 @ ''</p>'')
     (createTourCard ns t)\<close>
  unfolding createTourCard_def
  apply (rule sublist_skip8, rule sublist_skip8, rule sublist_skip8, rule sublist_skip4,
      rule sublist_skip2, rule sublist_skip)
  by (simp add: sublist_Cons_right)

lemma card_duration:
  \<open>durationOf t \<noteq> [] \<Longrightarrow>
   sublist (''<span>'' @ [CHR 0xE2, CHR 0x8F, CHR 0xB1] @ '' '' @ cleanDuration (durationOf t)
            @ ''</span>'') (createTourCard ns t)\<close>
  unfolding createTourCard_def
  apply (rule sublist_skip8, rule sublist_skip8, rule sublist_skip8, rule sublist_skip8,
      rule sublist_skip4, rule sublist_skip2)
  by (simp add: sublist_Cons_right)

lemma card_link:
  \<open>sublist (''<a href="'' @ interpolate (bookingLink t) @ ''" '') (createTourCard ns t)\<close>
  unfolding createTourCard_def
  apply (rule sublist_skip8, rule sublist_skip8, rule sublist_skip8, rule sublist_skip8,
      rule sublist_skip8, rule sublist_skip4, rule sublist_skip)
  by (simp add: sublist_Cons_right)


text \<open>
  Claim C2, as the code has it. For every listing, each text field that the listing has
  stands in the card as it is, with no escaping or encoding for the markup around it: the
  name as the content of the heading and inside the \<^verbatim>\<open>alt\<close> attribute, the company as
  element content, the image address inside the \<^verbatim>\<open>src\<close> attribute, the booking link inside
  the \<^verbatim>\<open>href\<close> attribute, the first tag as element content, the description after
  truncation and the duration after cleaning. A field that holds markup puts that markup
  into the view.
\<close>

theorem createTourCard_verbatim:
  \<open>(name t = Some n \<longrightarrow>
      sublist (''<h3 class="tour-name">'' @ n @ ''</h3>'') (createTourCard ns t) \<and>
      sublist (''" alt="'' @ n @ ''" loading="lazy">'') (createTourCard ns t)) \<and>
   (company t = Some c \<longrightarrow>
      sublist (''<p class="tour-company">'' @ c @ ''</p>'') (createTourCard ns t)) \<and>
   (image_f t = Some i \<longrightarrow>
      sublist (''<img src="'' @ i @ ''" alt="'') (createTourCard ns t)) \<and>
   (bookingLink t = Some b \<longrightarrow>
      sublist (''<a href="'' @ b @ ''" '') (createTourCard ns t)) \<and>
   (tags t = Some (g # gs) \<and> g \<noteq> [] \<longrightarrow>
      sublist (''<span class="tour-tag">'' @ g @ ''</span>'') (createTourCard ns t)) \<and>
   (description t = Some d \<and> d \<noteq> [] \<longrightarrow>
      sublist (''<p class="tour-description">'' @ truncate_str d 100 @ ''</p>'')
        (createTourCard ns t)) \<and>
   (durationText t = Some u \<and> u \<noteq> [] \<longrightarrow>
      sublist (''<span>'' @ [CHR 0xE2, CHR 0x8F, CHR 0xB1] @ '' '' @ cleanDuration u
               @ ''</span>'') (createTourCard ns t))\<close>
proof (intro conjI impI)
  assume "name t = Some n"
  then show \<open>sublist (''<h3 class="tour-name">'' @ n @ ''</h3>'') (createTourCard ns t)\<close>
    and \<open>sublist (''" alt="'' @ n @ ''" loading="lazy">'') (createTourCard ns t)\<close>
    using card_name [of t ns] card_alt [of t ns] by (simp_all add: interpolate_def)
next
  assume "company t = Some c"
  then show \<open>sublist (''<p class="tour-company">'' @ c @ ''</p>'') (createTourCard ns t)\<close>
    using card_company [of t ns] by (simp add: interpolate_def)
next
  assume "image_f t = Some i"
  then show \<open>sublist (''<img src="'' @ i @ ''" alt="'') (createTourCard ns t)\<close>
    using card_image [of t ns] by (simp add: interpolate_def)
next
  assume "bookingLink t = Some b"
  then show \<open>sublist (''<a href="'' @ b @ ''" '') (createTourCard ns t)\<close>
    using card_link [of t ns] by (simp add: interpolate_def)
next
  assume "tags t = Some (g # gs) \<and> g \<noteq> []"
  then have "firstTag t = g" by (simp add: firstTag_def)
  then show \<open>sublist (''<span class="tour-tag">'' @ g @ ''</span>'') (createTourCard ns t)\<close>
    using card_tag [of t ns] by simp
next
  assume "description t = Some d \<and> d \<noteq> []"
  then have "descriptionOf t = d" by (simp add: descriptionOf_def)
  then show \<open>sublist (''<p class="tour-description">'' @ truncate_str d 100 @ ''</p>'')
      (createTourCard ns t)\<close>
    using card_description [of t ns] by simp
next
  assume "durationText t = Some u \<and> u \<noteq> []"
  then have "durationOf t = u" and "durationOf t \<noteq> []" by (simp_all add: durationOf_def)
  then show \<open>sublist (''<span>'' @ [CHR 0xE2, CHR 0x8F, CHR 0xB1] @ '' '' @ cleanDuration u
      @ ''</span>'') (createTourCard ns t)\<close>
    using card_duration [of t ns] by simp
qed

theorem createTourCard_verbatim_witness:
  \<open>sublist (''<h3 class="tour-name">Sunset <b>Airboat</b> Ride</h3>'')
     (createTourCard integerToString fullTour) \<and>
   sublist (''" alt="Sunset <b>Airboat</b> Ride" loading="lazy">'')
     (createTourCard integerToString fullTour) \<and>
   sublist (''<p class="tour-company">Glades & Co</p>'')
     (createTourCard integerToString fullTour) \<and>
   sublist (''<img src="img/a.jpg" alt="'') (createTourCard integerToString fullTour) \<and>
   sublist (''<a href="https://example.com/?a=1&b=2" '')
     (createTourCard integerToString fullTour) \<and>
   sublist (''<span class="tour-tag">airboat</span>'')
     (createTourCard integerToString fullTour) \<and>
   sublist (''<p class="tour-description">See "gators" up close.</p>'')
     (createTourCard integerToString fullTour) \<and>
   sublist (''<span>'' @ [CHR 0xE2, CHR 0x8F, CHR 0xB1] @ '' : 2 hours</span>'')
     (createTourCard integerToString fullTour) \<and>
   company gatorKayak = None \<and> durationText gatorKayak = None \<and>
   sublist (''<h3 class="tour-name">Gator Spotting Kayak</h3>'')
     (createTourCard integerToString gatorKayak) \<and>
   sublist (''<span class="tour-tag">kayak</span>'')
     (createTourCard integerToString gatorKayak)\<close>
proof -
  have t: \<open>truncate_str ''See "gators" up close.'' 100 = ''See "gators" up close.''\<close>
    by (simp add: truncate_str_def)
  have c: "cleanDuration ''Duration: 2 hours'' = '': 2 hours''"
    by (simp add: cleanDuration_def toLowerCase_def toLowerChar_def isWhiteSpace_def trim_def
        replaceNewlines_def)
  show ?thesis
    using createTourCard_verbatim [of fullTour "''Sunset <b>Airboat</b> Ride''" integerToString
        "''Glades & Co''" "''img/a.jpg''" "''https://example.com/?a=1&b=2''" "''airboat''"
        "[''sunset'']" \<open>''See "gators" up close.''\<close> "''Duration: 2 hours''"]
      createTourCard_verbatim [of gatorKayak "''Gator Spotting Kayak''" integerToString
        "[]" "[]" "[]" "''kayak''" "[''wildlife'']" "[]" "[]"]
    by (simp add: fullTour_def gatorKayak_def t c)
qed

text \<open>The claim as it is written fails: a name that is an element with a handler stands in
  the card as that element.\<close>

theorem createTourCard_markup_counterexample:
  \<open>name markupTour = Some ''<img src=x onerror=alert(1)>'' \<and>
   sublist ''<h3 class="tour-name"><img src=x onerror=alert(1)></h3>''
     (createTourCard integerToString markupTour)\<close>
  using card_name [of markupTour integerToString]
  by (simp add: markupTour_def interpolate_def)

section \<open>Debounce: one pending timer\<close>

lemma advance_idle:
  "timers pg = [] \<Longrightarrow> advance func T pg = pg\<lparr>clock := max (clock pg) T\<rparr>"
  by (subst advance.simps) (simp add: nextDue_def)

lemma advance_not_due:
  "timers pg = [(h, d, a)] \<Longrightarrow> T < d \<Longrightarrow> advance func T pg = pg\<lparr>clock := max (clock pg) T\<rparr>"
  by (subst advance.simps) (simp add: nextDue_def)

lemma advance_fire:
  assumes tm: "timers pg = [(h, d, a)]" and due: "d \<le> T"
  shows "advance func T pg =
     pg\<lparr>clock := max (max (clock pg) d) T, timers := [],
        app := func a (app pg), runs := runs pg @ [(max (clock pg) d, a)]\<rparr>"
proof -
  let ?pg1 = "pg\<lparr>clock := max (clock pg) d, timers := filter (\<lambda>x. fst x \<noteq> h) (timers pg)\<rparr>"
  have next_due: "nextDue T pg = Some (h, d, a)"
    using tm due by (simp add: nextDue_def)
  have l: "later func a ?pg1 =
      pg\<lparr>clock := max (clock pg) d, timers := [], app := func a (app pg),
         runs := runs pg @ [(max (clock pg) d, a)]\<rparr>"
    using tm by (cases "timeout pg") (simp_all add: later_def clearTimeout_def Let_def)
  have "advance func T pg = advance func T (later func a ?pg1)"
    by (subst advance.simps) (simp add: next_due)
  also have "\<dots> = pg\<lparr>clock := max (max (clock pg) d) T, timers := [],
        app := func a (app pg), runs := runs pg @ [(max (clock pg) d, a)]\<rparr>"
    by (simp add: l advance_idle)
  finally show ?thesis .
qed

lemma executedFunction_single:
  assumes "atMostOne pg"
  shows "timers (executedFunction w a pg) = [(nextHandle pg, clock pg + w, a)]"
    and "timeout (executedFunction w a pg) = Some (nextHandle pg)"
    and "clock (executedFunction w a pg) = clock pg"
    and "app (executedFunction w a pg) = app pg"
    and "runs (executedFunction w a pg) = runs pg"
  using assms
  by (auto simp: atMostOne_def executedFunction_def clearTimeout_def setTimeout_def Let_def
      split: option.splits)

lemma advance_atMostOne: "atMostOne pg \<Longrightarrow> atMostOne (advance func T pg)"
proof -
  assume one: "atMostOne pg"
  show ?thesis
  proof (cases "timers pg = []")
    case True
    then show ?thesis by (simp add: advance_idle atMostOne_def)
  next
    case False
    with one obtain h d a where tm: "timers pg = [(h, d, a)]" and "timeout pg = Some h"
      by (auto simp: atMostOne_def)
    then show ?thesis
      by (cases "T < d") (simp_all add: advance_not_due advance_fire atMostOne_def)
  qed
qed

lemma inputEvent_atMostOne: "atMostOne pg \<Longrightarrow> atMostOne (inputEvent func w e pg)"
proof -
  assume "atMostOne pg"
  then have "atMostOne (advance func (fst e) pg)" by (rule advance_atMostOne)
  then have "atMostOne ((advance func (fst e) pg)
      \<lparr>app := (app (advance func (fst e) pg))\<lparr>searchInput := fst (snd e)\<rparr>\<rparr>)"
    by (simp add: atMostOne_def)
  from executedFunction_single(1,2) [OF this]
  show ?thesis by (simp add: inputEvent_def Let_def atMostOne_def)
qed

lemma inputEvents_atMostOne: "atMostOne pg \<Longrightarrow> atMostOne (inputEvents func w es pg)"
  by (induction es arbitrary: pg) (simp_all add: inputEvent_atMostOne)

lemma atMostOne_length: "atMostOne pg \<Longrightarrow> length (timers pg) \<le> 1"
  by (auto simp: atMostOne_def)

lemma inputEvent_first:
  assumes "timers pg = []" and "clock pg \<le> t"
  shows "pending w (inputEvent func w (t, v, a) pg) t a ((app pg)\<lparr>searchInput := v\<rparr>) (runs pg)"
proof -
  let ?pg2 = "(advance func t pg)\<lparr>app := (app (advance func t pg))\<lparr>searchInput := v\<rparr>\<rparr>"
  have adv: "advance func t pg = pg\<lparr>clock := t\<rparr>"
    using assms by (simp add: advance_idle max_def)
  have "atMostOne ?pg2" using assms by (simp add: adv atMostOne_def)
  from executedFunction_single [OF this, of w a]
  show ?thesis by (simp add: inputEvent_def Let_def pending_def adv)
qed

lemma inputEvent_next:
  assumes p: "pending w pg t0 a0 st rs" and "t0 \<le> t" and "t < t0 + w"
  shows "pending w (inputEvent func w (t, v, a) pg) t a (st\<lparr>searchInput := v\<rparr>) rs"
proof -
  from p obtain h where tm: "timers pg = [(h, t0 + w, a0)]" and to: "timeout pg = Some h"
    and c: "clock pg = t0" and s: "app pg = st" and r: "runs pg = rs"
    by (auto simp: pending_def)
  let ?pg2 = "(advance func t pg)\<lparr>app := (app (advance func t pg))\<lparr>searchInput := v\<rparr>\<rparr>"
  have adv: "advance func t pg = pg\<lparr>clock := t\<rparr>"
    using tm c assms(2,3) by (simp add: advance_not_due max_def)
  have "atMostOne ?pg2" using tm to by (simp add: adv atMostOne_def)
  from executedFunction_single [OF this, of w a]
  show ?thesis by (simp add: inputEvent_def Let_def pending_def adv s r)
qed

lemma inputEvents_burst:
  assumes "pending w pg (fst e) (snd (snd e)) st rs" and "burst w (e # es)"
  shows "pending w (inputEvents func w es pg) (fst (last (e # es))) (snd (snd (last (e # es))))
           (st\<lparr>searchInput := fst (snd (last (e # es)))\<rparr>) rs
         \<or> (es = [] \<and> inputEvents func w es pg = pg)"
  using assms
proof (induction es arbitrary: pg e st)
  case Nil
  then show ?case by simp
next
  case (Cons e' es)
  obtain t v a where e': "e' = (t, v, a)" by (cases e') auto
  from Cons.prems have gap: "fst e \<le> t" "t < fst e + w" and b: "burst w (e' # es)"
    by (simp_all add: e')
  have p': "pending w (inputEvent func w e' pg) (fst e') (snd (snd e')) (st\<lparr>searchInput := v\<rparr>) rs"
    using inputEvent_next [OF Cons.prems(1) gap, of func v a] by (simp add: e')
  from Cons.IH [OF p' b] show ?case
    by (cases es) (use p' in \<open>auto simp: e'\<close>)
qed

lemma pending_fire:
  assumes p: "pending w pg t a st rs" and "t + w \<le> T"
  shows "timers (advance func T pg) = []"
    and "runs (advance func T pg) = rs @ [(t + w, a)]"
    and "app (advance func T pg) = func a st"
proof -
  from p obtain h where tm: "timers pg = [(h, t + w, a)]" and c: "clock pg = t"
    and s: "app pg = st" and r: "runs pg = rs"
    by (auto simp: pending_def)
  from advance_fire [OF tm assms(2), of func]
  show "timers (advance func T pg) = []"
    and "runs (advance func T pg) = rs @ [(t + w, a)]"
    and "app (advance func T pg) = func a st"
    by (simp_all add: c s r max_def)
qed

lemma burst_fires_once:
  assumes idle: "timers pg = []" and ne: "es \<noteq> []" and b: "burst w es"
    and start: "clock pg \<le> fst (hd es)" and late: "fst (last es) + w \<le> T"
  shows "timers (advance func T (inputEvents func w es pg)) = [] \<and>
     runs (advance func T (inputEvents func w es pg))
       = runs pg @ [(fst (last es) + w, snd (snd (last es)))] \<and>
     app (advance func T (inputEvents func w es pg))
       = func (snd (snd (last es))) ((app pg)\<lparr>searchInput := fst (snd (last es))\<rparr>)"
proof -
  from ne obtain e es' where es: "es = e # es'" by (cases es) auto
  obtain t v a where e: "e = (t, v, a)" by (cases e) auto
  have p1: "pending w (inputEvent func w e pg) (fst e) (snd (snd e))
              ((app pg)\<lparr>searchInput := v\<rparr>) (runs pg)"
    using inputEvent_first [OF idle, of t w func v a] start by (simp add: es e)
  have "pending w (inputEvents func w es pg) (fst (last es)) (snd (snd (last es)))
          ((app pg)\<lparr>searchInput := fst (snd (last es))\<rparr>) (runs pg)"
    using inputEvents_burst [OF p1, of es' func] b p1 by (auto simp: es e)
  from pending_fire [OF this late, of func] show ?thesis by simp
qed

text \<open>
  Claim C9. From a page without a pending timer, whatever the input events and their
  times, at most one timer of the search listener is pending after each event and at any
  later time: each event clears the timer that \<open>timeout\<close> names and sets a new one. For a
  burst of events, each less than 300 milliseconds after the one before, the recompute
  runs exactly once, at 300 milliseconds after the last event, on the state in which the
  search control holds the text of the last event.
\<close>

theorem debounce_single_recompute:
  assumes idle: "timers pg = []"
  shows "length (timers (searchListener ns es pg)) \<le> 1 \<and>
     length (timers (advance (recompute ns) T (searchListener ns es pg))) \<le> 1 \<and>
     (es \<noteq> [] \<and> burst 300 es \<and> clock pg \<le> fst (hd es) \<and> fst (last es) + 300 \<le> T \<longrightarrow>
        timers (advance (recompute ns) T (searchListener ns es pg)) = [] \<and>
        runs (advance (recompute ns) T (searchListener ns es pg))
          = runs pg @ [(fst (last es) + 300, snd (snd (last es)))] \<and>
        app (advance (recompute ns) T (searchListener ns es pg))
          = recompute ns (snd (snd (last es))) ((app pg)\<lparr>searchInput := fst (snd (last es))\<rparr>))"
proof -
  have one: "atMostOne pg" using idle by (simp add: atMostOne_def)
  have a: "atMostOne (searchListener ns es pg)"
    unfolding searchListener_def using one by (rule inputEvents_atMostOne)
  then have b: "atMostOne (advance (recompute ns) T (searchListener ns es pg))"
    by (rule advance_atMostOne)
  show ?thesis
    using atMostOne_length [OF a] atMostOne_length [OF b]
      burst_fires_once [OF idle, of es 300 T "recompute ns"]
    by (auto simp: searchListener_def)
qed

theorem debounce_single_recompute_witness:
  "timers freshPage = [] \<and> typingBurst \<noteq> [] \<and> burst 300 typingBurst \<and>
   clock freshPage \<le> fst (hd typingBurst) \<and> fst (last typingBurst) + 300 \<le> 2000 \<and>
   length (timers (searchListener integerToString typingBurst freshPage)) \<le> 1 \<and>
   runs (advance (recompute integerToString) 2000
           (searchListener integerToString typingBurst freshPage)) = [(1719, ())] \<and>
   app (advance (recompute integerToString) 2000
          (searchListener integerToString typingBurst freshPage))
     = recompute integerToString () (loadedState\<lparr>searchInput := ''kay''\<rparr>)"
  using debounce_single_recompute [of freshPage integerToString typingBurst 2000]
  by (simp add: freshPage_def typingBurst_def)

end
